theory Spec2Isabelle
  imports Complex_Main
begin

section \<open>Blob detection, merging and pruning of \<open>basics/log.py\<close>\<close>

text \<open>
  The module works on numpy arrays of float64. The embedding keeps the control flow of
  the source and reads every float as a real number: rounding is not modelled, the
  comparisons of the source are comparisons of reals. The two places where a float
  computation of the source leaves the reals are written out where they occur: a
  division by zero (numpy gives an infinity or a NaN and goes on) and the inverse cosine
  or square root of a number outside their domains (NaN).

  A row of the detection array is \<open>(y, x, semi-major, semi-minor, position angle)\<close>,
  the columns 0 to 4 of the source. The angle is the one column that can hold a NaN,
  which \<open>merge_to_ellipse\<close> makes from two equal centres: it is a \<open>real option\<close>, with
  \<open>None\<close> for the NaN.
\<close>

record blob =
  ypos :: real
  xpos :: real
  major :: real
  minor :: real
  pa :: "real option"

text \<open>Every exception the modelled code can raise.\<close>

datatype error =
    ValueError_scale_choice
  | IndexError_weighting nat
  | ValueError_math_domain
  | ZeroDivisionError
  | ValueError_negative_samples
  | ValueError_concatenate
  | IndexError_out_of_bounds
  | UnboundLocalError_cond

subsection \<open>Circle overlap: \<open>_blob_overlap\<close>\<close>

definition hypot :: "real \<Rightarrow> real \<Rightarrow> real" where
  "hypot a b = sqrt (a\<^sup>2 + b\<^sup>2)"

definition np_clip :: "real \<Rightarrow> real \<Rightarrow> real \<Rightarrow> real" where
  "np_clip v lo hi = min (max v lo) hi"

text \<open>The value \<open>1e-5\<close> that \<open>_blob_overlap\<close> returns for touching circles and that
  \<open>overlap_metric\<close> compares with.\<close>

definition touching_eps :: real where
  "touching_eps = 1 / 100000"

text \<open>\<open>_blob_overlap(blob1, blob2)\<close>. The last branch is reached only with \<open>d > 0\<close> and
  both radii positive, so none of its divisions is by zero.\<close>

definition blob_overlap :: "blob \<Rightarrow> blob \<Rightarrow> real" where
  "blob_overlap blob1 blob2 =
     (let r1 = major blob1;
          r2 = major blob2;
          d = hypot (ypos blob1 - ypos blob2) (xpos blob1 - xpos blob2)
      in if d > r1 + r2 then 0
         else if d = r1 + r2 then touching_eps
         else if d \<le> \<bar>r1 - r2\<bar> then 1
         else
           (let ratio1 = np_clip ((d\<^sup>2 + r1\<^sup>2 - r2\<^sup>2) / (2 * d * r1)) (- 1) 1;
                acos1 = arccos ratio1;
                ratio2 = np_clip ((d\<^sup>2 + r2\<^sup>2 - r1\<^sup>2) / (2 * d * r2)) (- 1) 1;
                acos2 = arccos ratio2;
                a = - d + r2 + r1;
                b = d - r2 + r1;
                c = d + r2 - r1;
                d' = d + r2 + r1;
                area = r1\<^sup>2 * acos1 + r2\<^sup>2 * acos2 - (1 / 2) * sqrt \<bar>a * b * c * d'\<bar>
            in area / (pi * (min r1 r2)\<^sup>2)))"

subsection \<open>The dispatcher: \<open>overlap_metric\<close>\<close>

text \<open>\<open>_pixel_overlap\<close> rasterises two ellipses with astropy's \<open>Ellipse2D\<close> on a float grid
  and counts pixels. Neither the library nor the sampling is part of the embedding: the
  kernel is a parameter \<open>pixel_overlap\<close> of every function that reaches it, and nothing
  is assumed about its values.\<close>

definition overlap_metric :: "(blob \<Rightarrow> blob \<Rightarrow> real) \<Rightarrow> blob \<Rightarrow> blob \<Rightarrow> real" where
  "overlap_metric pixel_overlap ellip1 ellip2 =
     (if major ellip1 \<noteq> minor ellip1 \<or> major ellip2 \<noteq> minor ellip2
      then pixel_overlap ellip1 ellip2
      else (let blob_overlap_v = blob_overlap ellip1 ellip2
            in if blob_overlap_v = touching_eps then 0 else blob_overlap_v))"

subsection \<open>Pairwise overlaps: \<open>pdist\<close>, \<open>dist_uppertri\<close>, \<open>np.where\<close>\<close>

text \<open>\<open>scipy.spatial.distance.pdist(X, metric)\<close> calls \<open>metric(X[i], X[j])\<close> for every
  \<open>i < j\<close>, row after row, and returns the values in that order.\<close>

definition pair_indices :: "nat \<Rightarrow> (nat \<times> nat) list" where
  "pair_indices n = concat (map (\<lambda>i. map (\<lambda>j. (i, j)) [Suc i..<n]) [0..<n])"

definition pdist :: "('a \<Rightarrow> 'a \<Rightarrow> real) \<Rightarrow> 'a list \<Rightarrow> real list" where
  "pdist metric X = map (\<lambda>(i, j). metric (X ! i) (X ! j)) (pair_indices (length X))"

text \<open>Modelled from the spec: \<open>basics.utils.dist_uppertri\<close>, imported by \<open>log.py\<close>, is not
  among the sources. The spec (4.4) has the pairwise overlaps stored once per pair
  \<open>i < j\<close>, without the diagonal, with a mapping between a row/column pair and its packed
  index, so that the pairs that pass a test are listed as \<open>(i, j)\<close> with \<open>i < j\<close>. Here
  the packed values are keyed by their pair, in the order of \<open>pdist\<close>, and \<open>np_where\<close>
  lists the keys whose value passes the test, in row-major order as \<open>np.where\<close> does.\<close>

definition dist_uppertri :: "real list \<Rightarrow> nat \<Rightarrow> ((nat \<times> nat) \<times> real) list" where
  "dist_uppertri cond_arr shape = zip (pair_indices shape) cond_arr"

definition np_where :: "(real \<Rightarrow> bool) \<Rightarrow> ((nat \<times> nat) \<times> real) list \<Rightarrow> (nat \<times> nat) list" where
  "np_where test dist_arr = map fst (filter (\<lambda>(p, v). test v) dist_arr)"

subsection \<open>Pruning: \<open>_prune_blobs\<close>\<close>

text \<open>A row handed to \<open>_prune_blobs\<close> has the five geometric columns and, when the caller
  (\<open>multiscale_bubblefind\<close>) appended them, the trailing columns 5, 6, ...: the shell
  fraction and the channel. A numpy array has the same number of columns in every row.\<close>

type_synonym row = "blob \<times> real list"

text \<open>\<open>overlap_metric\<close> on rows cut by \<open>slice(0, -2)\<close>, the \<open>use_shell_fraction\<close> case: a
  row of \<open>5 + k\<close> columns keeps its first \<open>3 + k\<close>. Reading a column that the cut row does
  not have raises IndexError: column 3 in \<open>ellip[minor]\<close>, column 4 in \<open>_pixel_overlap\<close>
  (\<open>large_blob[4]\<close>, \<open>small_blob[4]\<close>). The \<open>or\<close> of the source does not look at its
  second operand when the first holds.\<close>

definition overlap_metric_sliced ::
    "(blob \<Rightarrow> blob \<Rightarrow> real) \<Rightarrow> row \<Rightarrow> row \<Rightarrow> error + real" where
  "overlap_metric_sliced pixel_overlap row1 row2 =
     (let ellip1 = fst row1; ellip2 = fst row2;
          ncols1 = 3 + length (snd row1);
          ncols2 = 3 + length (snd row2);
          pixel = (if ncols1 < 5 \<or> ncols2 < 5 then Inl IndexError_out_of_bounds
                   else Inr (pixel_overlap ellip1 ellip2))
      in if ncols1 < 4 then Inl IndexError_out_of_bounds
         else if major ellip1 \<noteq> minor ellip1 then pixel
         else if ncols2 < 4 then Inl IndexError_out_of_bounds
         else if major ellip2 \<noteq> minor ellip2 then pixel
         else (let blob_overlap_v = blob_overlap ellip1 ellip2
               in Inr (if blob_overlap_v = touching_eps then 0 else blob_overlap_v)))"

text \<open>The first exception of a sequence of calls, or all their values.\<close>

fun sequence_results :: "(error + 'a) list \<Rightarrow> error + 'a list" where
  "sequence_results [] = Inr []"
| "sequence_results (Inl e # rs) = Inl e"
| "sequence_results (Inr v # rs) =
     (case sequence_results rs of Inl e \<Rightarrow> Inl e | Inr vs \<Rightarrow> Inr (v # vs))"

definition pdist_sliced ::
    "(blob \<Rightarrow> blob \<Rightarrow> real) \<Rightarrow> row list \<Rightarrow> error + real list" where
  "pdist_sliced pixel_overlap X =
     sequence_results
       (map (\<lambda>(i, j). overlap_metric_sliced pixel_overlap (X ! i) (X ! j))
            (pair_indices (length X)))"

text \<open>The loop over \<open>zip(*overlaps)\<close>. With \<open>use_shell_fraction\<close> the source computes
  \<open>shell_cond = blob1[5] > blob2[5]\<close> and then tests \<open>cond\<close>, a local name that has no
  value yet on that path: the first pair raises UnboundLocalError. The positions come
  from \<open>pair_indices\<close>, so they are rows of the array.\<close>

fun prune_loop :: "row list \<Rightarrow> bool \<Rightarrow> (nat \<times> nat) list \<Rightarrow> nat list \<Rightarrow> error + nat list" where
  "prune_loop blobs_array use_shell_fraction [] remove_blobs = Inr remove_blobs"
| "prune_loop blobs_array use_shell_fraction ((posn1, posn2) # overlaps) remove_blobs =
     (let blob1 = blobs_array ! posn1;
          blob2 = blobs_array ! posn2
      in if use_shell_fraction
         then (if snd blob1 = [] \<or> snd blob2 = [] then Inl IndexError_out_of_bounds
               else Inl UnboundLocalError_cond)
         else (let cond = major (fst blob1) > major (fst blob2)
               in if cond
                  then prune_loop blobs_array use_shell_fraction overlaps (remove_blobs @ [posn2])
                  else prune_loop blobs_array use_shell_fraction overlaps (remove_blobs @ [posn1])))"

text \<open>\<open>np.delete(arr, obj, axis=0)\<close>: the rows whose position is not in \<open>obj\<close>, in order.\<close>

definition np_delete :: "'a list \<Rightarrow> nat list \<Rightarrow> 'a list" where
  "np_delete arr obj = map snd (filter (\<lambda>(k, r). k \<notin> set obj) (zip [0..<length arr] arr))"

text \<open>\<open>_prune_blobs\<close> up to the end of its loop: the list \<open>remove_blobs\<close>.\<close>

definition prune_removals ::
    "(blob \<Rightarrow> blob \<Rightarrow> real) \<Rightarrow> row list \<Rightarrow> real \<Rightarrow> bool \<Rightarrow> error + nat list" where
  "prune_removals pixel_overlap blobs_array overlap use_shell_fraction =
     (case (if use_shell_fraction then pdist_sliced pixel_overlap blobs_array
            else Inr (pdist (overlap_metric pixel_overlap) (map fst blobs_array))) of
        Inl e \<Rightarrow> Inl e
      | Inr cond_arr \<Rightarrow>
          (let dist_arr = dist_uppertri cond_arr (length blobs_array);
               overlaps = np_where (\<lambda>v. v \<ge> overlap) dist_arr
           in prune_loop blobs_array use_shell_fraction overlaps []))"

text \<open>The rest of \<open>_prune_blobs\<close>: \<open>list(set(remove_blobs))\<close> and \<open>np.delete\<close>.\<close>

definition prune_blobs ::
    "(blob \<Rightarrow> blob \<Rightarrow> real) \<Rightarrow> row list \<Rightarrow> real \<Rightarrow> bool \<Rightarrow> error + row list" where
  "prune_blobs pixel_overlap blobs_array overlap use_shell_fraction =
     (case prune_removals pixel_overlap blobs_array overlap use_shell_fraction of
        Inl e \<Rightarrow> Inl e
      | Inr remove_blobs \<Rightarrow> Inr (np_delete blobs_array (remdups remove_blobs)))"

subsection \<open>Merging: \<open>_min_merge_overlap\<close>, \<open>merge_to_ellipse\<close>, \<open>_merge_blobs\<close>\<close>

text \<open>\<open>_min_merge_overlap\<close>: \<open>None\<close> is the NaN that \<open>np.arccos\<close> and \<open>np.sqrt\<close> give when
  \<open>min_dist\<close> is outside \<open>[-2, 2]\<close>. Every comparison with a NaN is false.\<close>

definition min_merge_overlap :: "real \<Rightarrow> real option" where
  "min_merge_overlap min_dist =
     (if \<bar>min_dist\<bar> \<le> 2
      then (let term1 = 2 * arccos (min_dist / 2) / pi;
                term2 = sqrt ((2 - min_dist) * (2 + min_dist)) / (2 * pi)
            in Some (term1 - term2))
      else None)"

definition in_merge_band :: "real option \<Rightarrow> real \<Rightarrow> real \<Rightarrow> bool" where
  "in_merge_band min_overlap max_overlap v =
     (case min_overlap of None \<Rightarrow> False | Some m \<Rightarrow> v > m \<and> v \<le> max_overlap)"

text \<open>\<open>np.arctan(dy / dx)\<close> on float64 scalars: a division by zero gives an infinity,
  whose inverse tangent is \<open>\<plusminus>\<pi>/2\<close>, and \<open>0/0\<close> gives NaN (\<open>None\<close>). The difference
  of two equal floats is \<open>+0.0\<close>.\<close>

definition np_arctan_quotient :: "real \<Rightarrow> real \<Rightarrow> real option" where
  "np_arctan_quotient dy dx =
     (if dx \<noteq> 0 then Some (arctan (dy / dx))
      else if dy > 0 then Some (pi / 2)
      else if dy < 0 then Some (- (pi / 2))
      else None)"

text \<open>\<open>merge_to_ellipse\<close>. The test \<open>pa < 0\<close> is false of a NaN, which stays as it is.\<close>

definition merge_to_ellipse :: "blob \<Rightarrow> blob \<Rightarrow> blob" where
  "merge_to_ellipse blob1 blob2 =
     (let d = hypot (ypos blob1 - ypos blob2) (xpos blob1 - xpos blob2);
          pa0 = np_arctan_quotient (ypos blob1 - ypos blob2) (xpos blob1 - xpos blob2)
      in \<lparr>ypos = (ypos blob1 + ypos blob2) / 2,
          xpos = (xpos blob1 + xpos blob2) / 2,
          major = major blob1 + d / 2,
          minor = major blob1,
          pa = (case pa0 of
                  None \<Rightarrow> None
                | Some a \<Rightarrow> Some (if a < 0 then a + pi else a))\<rparr>)"

text \<open>\<open>is_ellipse\<close> is a Python \<open>bool\<close>, and \<open>~\<close> on a \<open>bool\<close> is the bitwise complement of
  the integer: \<open>~True = -2\<close>, \<open>~False = -1\<close>. \<open>np.logical_and\<close> reads a number as true when
  it is not zero.\<close>

definition py_invert :: "bool \<Rightarrow> int" where
  "py_invert b = (if b then - 2 else - 1)"

definition np_logical_and :: "bool \<Rightarrow> int \<Rightarrow> bool" where
  "np_logical_and p n = (p \<and> n \<noteq> 0)"

definition mark_invalid :: "blob \<Rightarrow> blob" where
  "mark_invalid b = b\<lparr>major := - 1, minor := - 1\<rparr>"

text \<open>The state of the loop of \<open>_merge_blobs\<close>: the array, whose rows \<open>blob1\<close> and \<open>blob2\<close>
  are views that the loop writes through, and \<open>merged_blobs\<close>. The field \<open>merge_calls\<close>
  is not in the source: it records the positions each call of \<open>merge_to_ellipse\<close> was
  given, and nothing reads it.\<close>

record merge_state =
  blobs_array :: "blob list"
  merged_blobs :: "blob list"
  merge_calls :: "(nat \<times> nat) list"

fun merge_loop :: "merge_state \<Rightarrow> (nat \<times> nat) list \<Rightarrow> merge_state" where
  "merge_loop st [] = st"
| "merge_loop st ((posn1, posn2) # overlaps) =
     (let blob1 = blobs_array st ! posn1;
          blob2 = blobs_array st ! posn2;
          is_ellipse = (major blob1 \<noteq> minor blob1 \<or> major blob2 \<noteq> minor blob2)
      in if np_logical_and (major blob1 = major blob2) (py_invert is_ellipse)
         then merge_loop
                \<lparr>blobs_array =
                   (blobs_array st)[posn1 := mark_invalid blob1, posn2 := mark_invalid blob2],
                 merged_blobs = merged_blobs st @ [merge_to_ellipse blob1 blob2],
                 merge_calls = merge_calls st @ [(posn1, posn2)]\<rparr>
                overlaps
         else merge_loop st overlaps)"

definition merge_overlaps ::
    "(blob \<Rightarrow> blob \<Rightarrow> real) \<Rightarrow> blob list \<Rightarrow> real \<Rightarrow> (nat \<times> nat) list" where
  "merge_overlaps pixel_overlap blobs min_distance_merge =
     (let min_overlap = min_merge_overlap min_distance_merge;
          max_merge_overlap = 1;
          cond_arr = pdist (overlap_metric pixel_overlap) blobs;
          dist_arr = dist_uppertri cond_arr (length blobs)
      in np_where (in_merge_band min_overlap max_merge_overlap) dist_arr)"

definition merge_pass ::
    "(blob \<Rightarrow> blob \<Rightarrow> real) \<Rightarrow> blob list \<Rightarrow> real \<Rightarrow> merge_state" where
  "merge_pass pixel_overlap blobs min_distance_merge =
     merge_loop \<lparr>blobs_array = blobs, merged_blobs = [], merge_calls = []\<rparr>
       (merge_overlaps pixel_overlap blobs min_distance_merge)"

text \<open>The end of \<open>_merge_blobs\<close>. When no row is left with a positive radius,
  \<open>np.array([])\<close> has shape \<open>(0,)\<close>, \<open>np.vstack\<close> reads it as \<open>(1, 0)\<close> and cannot stack it
  on the \<open>(k, 5)\<close> array of merged rows: ValueError.\<close>

definition merge_blobs ::
    "(blob \<Rightarrow> blob \<Rightarrow> real) \<Rightarrow> blob list \<Rightarrow> real \<Rightarrow> error + blob list" where
  "merge_blobs pixel_overlap blobs min_distance_merge =
     (let st = merge_pass pixel_overlap blobs min_distance_merge;
          kept = filter (\<lambda>b. major b > 0) (blobs_array st)
      in if kept = [] then Inl ValueError_concatenate
         else Inr (kept @ merged_blobs st))"

subsection \<open>The pipeline: \<open>blob_log\<close>\<close>

text \<open>\<open>scale_choice is 'log'\<close> compares object identity, not text. CPython interns the
  string constants of a code object that look like identifiers, so every occurrence of
  the literal \<open>'log'\<close> in a program is one object; a string built at run time (read from
  a file, \<open>'LOG'.lower()\<close>) is a fresh object with an identity of its own, whatever its
  text.\<close>

datatype py_str = Interned string | Fresh nat string

fun str_val :: "py_str \<Rightarrow> string" where
  "str_val (Interned s) = s"
| "str_val (Fresh i s) = s"

fun py_is :: "py_str \<Rightarrow> py_str \<Rightarrow> bool" where
  "py_is (Interned s) (Interned t) = (s = t)"
| "py_is (Fresh i s) (Fresh j t) = (i = j \<and> s = t)"
| "py_is (Interned s) (Fresh j t) = False"
| "py_is (Fresh i s) (Interned t) = False"

type_synonym image = "real list list"

record config =
  sigma_list :: "real list option"
  scale_choice :: py_str
  min_sigma :: real
  max_sigma :: real
  num_sigma :: int
  threshold :: real
  overlap :: real
  sigma_ratio :: real
  weighting :: "real list option"
  merge_overlap_dist :: real

text \<open>\<open>math.log(x, base)\<close>: the logarithm of \<open>x\<close>, then that of \<open>base\<close>, then their
  quotient.\<close>

definition math_log :: "real \<Rightarrow> real \<Rightarrow> error + real" where
  "math_log x base =
     (if x \<le> 0 then Inl ValueError_math_domain
      else if base \<le> 0 then Inl ValueError_math_domain
      else if base = 1 then Inl ZeroDivisionError
      else Inr (log base x))"

definition np_linspace :: "real \<Rightarrow> real \<Rightarrow> int \<Rightarrow> error + real list" where
  "np_linspace start stop num =
     (if num < 0 then Inl ValueError_negative_samples
      else if num = 1 then Inr [start]
      else Inr (map (\<lambda>i. start + real i * ((stop - start) / real_of_int (num - 1)))
                    [0..<nat num]))"

definition np_logspace :: "real \<Rightarrow> real \<Rightarrow> int \<Rightarrow> error + real list" where
  "np_logspace start stop num =
     (case np_linspace start stop num of
        Inl e \<Rightarrow> Inl e
      | Inr exps \<Rightarrow> Inr (map (\<lambda>e. 10 powr e) exps))"

text \<open>Python's \<open>int\<close> of a float rounds towards zero.\<close>

definition py_int :: "real \<Rightarrow> int" where
  "py_int v = (if 0 \<le> v then \<lfloor>v\<rfloor> else \<lceil>v\<rceil>)"

text \<open>The first statements of \<open>blob_log\<close>: the list of scales.\<close>

definition make_sigma_list :: "config \<Rightarrow> error + real list" where
  "make_sigma_list cfg =
     (case sigma_list cfg of
        Some sl \<Rightarrow> Inr sl
      | None \<Rightarrow>
          if py_is (scale_choice cfg) (Interned ''log'') then
            (case math_log (min_sigma cfg) 10 of
               Inl e \<Rightarrow> Inl e
             | Inr start \<Rightarrow>
                 (case math_log (max_sigma cfg) 10 of
                    Inl e \<Rightarrow> Inl e
                  | Inr stop \<Rightarrow> np_logspace start stop (num_sigma cfg)))
          else if py_is (scale_choice cfg) (Interned ''linear'') then
            np_linspace (min_sigma cfg) (max_sigma cfg) (num_sigma cfg)
          else if py_is (scale_choice cfg) (Interned ''ratio'') then
            (if min_sigma cfg = 0 then Inl ZeroDivisionError
             else case math_log (max_sigma cfg / min_sigma cfg) (sigma_ratio cfg) of
                    Inl e \<Rightarrow> Inl e
                  | Inr l \<Rightarrow>
                      (let k = py_int l + 1
                       in Inr (map (\<lambda>i. min_sigma cfg * sigma_ratio cfg ^ i) [0..<nat k])))
          else Inl ValueError_scale_choice)"

text \<open>The check of \<open>weighting\<close>, and \<open>np.ones_like(sigma_list)\<close> when there is none.\<close>

definition check_weighting :: "config \<Rightarrow> real list \<Rightarrow> error + real list" where
  "check_weighting cfg sl =
     (case weighting cfg of
        Some w \<Rightarrow> if length w \<noteq> length sl then Inl (IndexError_weighting (length sl))
                  else Inr w
      | None \<Rightarrow> Inr (replicate (length sl) 1))"

definition scale_image :: "image \<Rightarrow> real \<Rightarrow> image" where
  "scale_image img c = map (map (\<lambda>v. v * c)) img"

text \<open>The rows of \<open>local_maxima\<close> before the merge: the peaks of every slice, slice after
  slice, with the radius \<open>sqrt 2\<close> times the scale of the slice, twice, and the angle 0.\<close>

definition local_maxima_rows ::
    "(image \<Rightarrow> real \<Rightarrow> real \<Rightarrow> (nat \<times> nat) list) \<Rightarrow> image list \<Rightarrow> real list \<Rightarrow> real \<Rightarrow> blob list" where
  "local_maxima_rows peak_local_max image_cube sl thr =
     concat (map (\<lambda>i. map (\<lambda>(py, px).
                         \<lparr>ypos = real py, xpos = real px,
                          major = sl ! i * sqrt 2, minor = sl ! i * sqrt 2, pa = Some 0\<rparr>)
                       (peak_local_max (image_cube ! i) thr (1.5 * (sl ! i))))
                 [0..<length sl])"

text \<open>The response stack, as the list of its slices: \<open>gaussian_laplace(image, s) * s ** 2 * w\<close>
  for every scale and its weight. The filter of scipy is a parameter.\<close>

definition response_stack ::
    "(image \<Rightarrow> real \<Rightarrow> image) \<Rightarrow> image \<Rightarrow> real list \<Rightarrow> real list \<Rightarrow> image list" where
  "response_stack gaussian_laplace img sl w =
     map (\<lambda>(s, w). scale_image (gaussian_laplace img s) (s\<^sup>2 * w)) (zip sl w)"

text \<open>\<open>blob_log\<close>. \<open>peak_local_max\<close> of skimage is a parameter too, with its arguments
  \<open>threshold_abs\<close> and \<open>min_distance\<close>. \<open>np.dstack\<close> of an empty list raises ValueError.\<close>

definition blob_log ::
    "(image \<Rightarrow> real \<Rightarrow> image) \<Rightarrow> (image \<Rightarrow> real \<Rightarrow> real \<Rightarrow> (nat \<times> nat) list) \<Rightarrow>
     (blob \<Rightarrow> blob \<Rightarrow> real) \<Rightarrow> image \<Rightarrow> config \<Rightarrow> error + (blob list \<times> image list)" where
  "blob_log gaussian_laplace peak_local_max pixel_overlap img cfg =
     (case make_sigma_list cfg of
        Inl e \<Rightarrow> Inl e
      | Inr sl \<Rightarrow>
          (case check_weighting cfg sl of
             Inl e \<Rightarrow> Inl e
           | Inr w \<Rightarrow>
               (let gl_images = response_stack gaussian_laplace img sl w
                in if gl_images = [] then Inl ValueError_concatenate
                   else
                     (let image_cube = gl_images;
                          local_maxima =
                            local_maxima_rows peak_local_max image_cube sl (threshold cfg)
                      in if local_maxima = [] then Inr (local_maxima, image_cube)
                         else
                           (case merge_blobs pixel_overlap local_maxima (merge_overlap_dist cfg) of
                              Inl e \<Rightarrow> Inl e
                            | Inr merged \<Rightarrow>
                                (case prune_blobs pixel_overlap (map (\<lambda>b. (b, [])) merged)
                                        (overlap cfg) False of
                                   Inl e \<Rightarrow> Inl e
                                 | Inr pruned \<Rightarrow> Inr (map fst pruned, image_cube)))))))"

subsection \<open>Notions of the specification and concrete inputs\<close>

text \<open>The \<open>d\<close> of \<open>_blob_overlap\<close> and of \<open>merge_to_ellipse\<close>.\<close>

definition center_distance :: "blob \<Rightarrow> blob \<Rightarrow> real" where
  "center_distance b1 b2 = hypot (ypos b1 - ypos b2) (xpos b1 - xpos b2)"

definition circular :: "blob \<Rightarrow> bool" where
  "circular b = (major b = minor b)"



text \<open>A circular detection as \<open>blob_log\<close> creates it: both axes the radius, angle 0.\<close>

definition circle :: "real \<Rightarrow> real \<Rightarrow> real \<Rightarrow> blob" where
  "circle y x r = \<lparr>ypos = y, xpos = x, major = r, minor = r, pa = Some 0\<rparr>"

text \<open>The pairs of rows that \<open>_prune_blobs\<close> finds at or above its threshold.\<close>

definition over_threshold :: "(blob \<Rightarrow> blob \<Rightarrow> real) \<Rightarrow> row list \<Rightarrow> real \<Rightarrow> nat \<times> nat \<Rightarrow> bool" where
  "over_threshold pixel_overlap rows thr =
     (\<lambda>(i, j). overlap_metric pixel_overlap (fst (rows ! i)) (fst (rows ! j)) \<ge> thr)"

text \<open>A stand-in for the sampled kernel in the concrete runs below.\<close>

definition no_pixel_overlap :: "blob \<Rightarrow> blob \<Rightarrow> real" where
  "no_pixel_overlap e1 e2 = 0"

text \<open>A point and a circle through it: the distance of the centres is the sum of the
  radii and their difference at once.\<close>

definition point_blob :: blob where
  "point_blob = circle 0 0 0"

definition disc_blob :: blob where
  "disc_blob = circle 0 2 2"

text \<open>Rows for \<open>_prune_blobs\<close>: a small circle inside a large one; two equal circles on
  one centre, told apart by a trailing column; and two rows with a shell fraction in
  column 5, the small circle having the better one.\<close>

definition nested_rows :: "row list" where
  "nested_rows = [(circle 0 0 3, []), (circle 0 1 1, [])]"

definition tied_rows :: "row list" where
  "tied_rows = [(circle 0 0 1, [7]), (circle 0 0 1, [8])]"

definition shell_rows :: "row list" where
  "shell_rows = [(circle 0 0 1, [9 / 10]), (circle 0 1 3, [3 / 10])]"


definition line_blobs :: "blob list" where
  "line_blobs = [circle 0 0 (sqrt 2), circle 0 6 (sqrt 2), circle 0 2 (sqrt 2),
                 circle 0 4 (sqrt 2), circle 0 20 (sqrt 2)]"

text \<open>Inputs of \<open>blob_log\<close>. For the library filters: a smoothing that returns its image,
  a peak finder that finds nothing, and one that finds five peaks on the row 0, in this
  order. Two configurations: one explicit scale 1 with \<open>merge_overlap_dist = 2\<close>, and
  one that asks for logarithmic scales with a string \<open>'log'\<close> built at run time.\<close>

definition identity_filter :: "image \<Rightarrow> real \<Rightarrow> image" where
  "identity_filter img s = img"

definition empty_peaks :: "image \<Rightarrow> real \<Rightarrow> real \<Rightarrow> (nat \<times> nat) list" where
  "empty_peaks img thr min_distance = []"

definition line_peaks :: "image \<Rightarrow> real \<Rightarrow> real \<Rightarrow> (nat \<times> nat) list" where
  "line_peaks img thr min_distance = [(0, 0), (0, 6), (0, 2), (0, 4), (0, 20)]"

definition line_config :: config where
  "line_config = \<lparr>sigma_list = Some [1], scale_choice = Interned ''linear'', min_sigma = 1,
     max_sigma = 50, num_sigma = 10, threshold = 1 / 5, overlap = 1 / 2, sigma_ratio = 2,
     weighting = None, merge_overlap_dist = 2\<rparr>"

definition fresh_log_config :: config where
  "fresh_log_config = \<lparr>sigma_list = None, scale_choice = Fresh 0 ''log'', min_sigma = 1,
     max_sigma = 50, num_sigma = 10, threshold = 1 / 5, overlap = 1 / 2, sigma_ratio = 2,
     weighting = None, merge_overlap_dist = 1\<rparr>"

section \<open>Properties\<close>

subsection \<open>Arithmetic of the kernels\<close>

lemma hypot_nonneg: "0 \<le> hypot a b"
  by (simp add: hypot_def)

lemma hypot_zero_left: "hypot 0 b = \<bar>b\<bar>"
  by (simp add: hypot_def)

lemma touching_eps_pos: "0 < touching_eps"
  by (simp add: touching_eps_def)

subsection \<open>The circle kernel\<close>

text \<open>
  C4, as stated, has \<open>_blob_overlap\<close> return 1 whenever \<open>d \<le> |r1 - r2|\<close>. The source
  tests \<open>d == r1 + r2\<close> first, and a point on a circle meets both tests: the result is
  the epsilon, not 1.
\<close>

theorem blob_overlap_nested_counterexample:
  "center_distance point_blob disc_blob \<le> \<bar>major point_blob - major disc_blob\<bar> \<and>
   blob_overlap point_blob disc_blob = touching_eps \<and>
   blob_overlap point_blob disc_blob \<noteq> 1"
  by (simp add: center_distance_def point_blob_def disc_blob_def circle_def blob_overlap_def
      hypot_zero_left touching_eps_def)

text \<open>
  C4, amended: with \<open>d\<close> the distance of the centres and \<open>r1\<close>, \<open>r2\<close> the radii,
  \<open>_blob_overlap\<close> returns 0 when \<open>d > r1 + r2\<close>, the positive epsilon \<open>1e-5\<close> when
  \<open>d = r1 + r2\<close>, and 1 when \<open>d \<le> |r1 - r2|\<close> and \<open>d < r1 + r2\<close>, the tests being made
  in this order.
\<close>

theorem blob_overlap_cases:
  "(center_distance b1 b2 > major b1 + major b2 \<longrightarrow> blob_overlap b1 b2 = 0) \<and>
   (center_distance b1 b2 = major b1 + major b2 \<longrightarrow>
      blob_overlap b1 b2 = touching_eps \<and> 0 < touching_eps) \<and>
   (center_distance b1 b2 < major b1 + major b2 \<and>
    center_distance b1 b2 \<le> \<bar>major b1 - major b2\<bar> \<longrightarrow> blob_overlap b1 b2 = 1)"
  by (simp add: center_distance_def blob_overlap_def Let_def touching_eps_def)

theorem blob_overlap_cases_witness:
  "center_distance (circle 0 0 1) (circle 0 5 1) > major (circle 0 0 1) + major (circle 0 5 1) \<and>
   blob_overlap (circle 0 0 1) (circle 0 5 1) = 0 \<and>
   center_distance (circle 0 0 1) (circle 0 2 1) = major (circle 0 0 1) + major (circle 0 2 1) \<and>
   blob_overlap (circle 0 0 1) (circle 0 2 1) = touching_eps \<and>
   center_distance (circle 0 0 3) (circle 0 1 1) < major (circle 0 0 3) + major (circle 0 1 1) \<and>
   center_distance (circle 0 0 3) (circle 0 1 1) \<le> \<bar>major (circle 0 0 3) - major (circle 0 1 1)\<bar> \<and>
   blob_overlap (circle 0 0 3) (circle 0 1 1) = 1"
proof -
  have d1: "center_distance (circle 0 0 1) (circle 0 5 1) = 5"
    and d2: "center_distance (circle 0 0 1) (circle 0 2 1) = 2"
    and d3: "center_distance (circle 0 0 3) (circle 0 1 1) = 1"
    by (simp_all add: center_distance_def circle_def hypot_zero_left)
  have m: "major (circle y x r) = r" for y x r
    by (simp add: circle_def)
  show ?thesis
    using blob_overlap_cases [of "circle 0 0 1" "circle 0 5 1"]
      blob_overlap_cases [of "circle 0 0 1" "circle 0 2 1"]
      blob_overlap_cases [of "circle 0 0 3" "circle 0 1 1"]
    by (simp add: d1 d2 d3 m)
qed

subsection \<open>The dispatcher\<close>

text \<open>
  C5: \<open>overlap_metric\<close> returns the value of the pixel-sampled kernel exactly when one
  of the two detections has different axes; for two circular detections it returns the
  value of the circle kernel, with the epsilon mapped to 0, so that two circles that
  touch from outside have overlap 0.
\<close>

theorem overlap_metric_dispatch:
  "(\<not> circular e1 \<or> \<not> circular e2 \<longrightarrow>
      overlap_metric pixel_overlap e1 e2 = pixel_overlap e1 e2) \<and>
   (circular e1 \<and> circular e2 \<longrightarrow>
      overlap_metric pixel_overlap e1 e2 =
        (if blob_overlap e1 e2 = touching_eps then 0 else blob_overlap e1 e2)) \<and>
   (circular e1 \<and> circular e2 \<and> center_distance e1 e2 = major e1 + major e2 \<longrightarrow>
      blob_overlap e1 e2 = touching_eps \<and> overlap_metric pixel_overlap e1 e2 = 0)"
  by (auto simp add: overlap_metric_def circular_def center_distance_def blob_overlap_def Let_def)

theorem overlap_metric_dispatch_witness:
  "\<not> circular \<lparr>ypos = 0, xpos = 0, major = 2, minor = 1, pa = Some 0\<rparr> \<and>
   overlap_metric (\<lambda>a b. 1 / 4) \<lparr>ypos = 0, xpos = 0, major = 2, minor = 1, pa = Some 0\<rparr> (circle 0 1 1)
     = 1 / 4 \<and>
   circular (circle 0 0 1) \<and> circular (circle 0 2 1) \<and>
   center_distance (circle 0 0 1) (circle 0 2 1) = major (circle 0 0 1) + major (circle 0 2 1) \<and>
   blob_overlap (circle 0 0 1) (circle 0 2 1) = touching_eps \<and>
   overlap_metric (\<lambda>a b. 1 / 4) (circle 0 0 1) (circle 0 2 1) = 0"
proof -
  have d: "center_distance (circle 0 0 1) (circle 0 2 1) = 2"
    by (simp add: center_distance_def circle_def hypot_zero_left)
  have c: "circular (circle y x r)" "major (circle y x r) = r" for y x r
    by (simp_all add: circle_def circular_def)
  have e: "\<not> circular \<lparr>ypos = 0, xpos = 0, major = 2, minor = 1, pa = Some 0\<rparr>"
    by (simp add: circular_def)
  show ?thesis
    using overlap_metric_dispatch
            [of "\<lparr>ypos = 0, xpos = 0, major = 2, minor = 1, pa = Some 0\<rparr>" "circle 0 1 1" "\<lambda>a b. 1 / 4"]
      overlap_metric_dispatch [of "circle 0 0 1" "circle 0 2 1" "\<lambda>a b. 1 / 4"]
    by (simp add: d c e)
qed

subsection \<open>Pairs and positions\<close>

lemma set_pair_indices: "set (pair_indices n) = {(i, j). i < j \<and> j < n}"
  by (fastforce simp: pair_indices_def)


lemma filter_zip_map:
  "map fst (filter (\<lambda>pv. test (snd pv)) (zip ps (map g ps))) = filter (\<lambda>p. test (g p)) ps"
  by (induction ps) auto

lemma np_where_pdist:
  "np_where test (dist_uppertri (pdist metric X) (length X)) =
     filter (\<lambda>(i, j). test (metric (X ! i) (X ! j))) (pair_indices (length X))"
  by (simp add: np_where_def dist_uppertri_def pdist_def filter_zip_map case_prod_unfold)

lemma prune_loop_plain:
  "prune_loop rows False ps rm =
     Inr (rm @ map (\<lambda>(i, j). if major (fst (rows ! i)) > major (fst (rows ! j)) then j else i) ps)"
  by (induction ps arbitrary: rm) (auto simp: Let_def)

lemma np_delete_nth:
  "np_delete arr obj = map ((!) arr) (filter (\<lambda>k. k \<notin> set obj) [0..<length arr])"
proof -
  have "zip [0..<length arr] arr = map (\<lambda>k. (k, arr ! k)) [0..<length arr]"
    by (rule nth_equalityI) auto
  then show ?thesis
    by (simp add: np_delete_def filter_map comp_def)
qed

lemma length_np_delete:
  "length (np_delete arr obj) = length arr - card (set obj \<inter> {..<length arr})"
proof -
  have "length (np_delete arr obj) =
        card {i. i < length [0..<length arr] \<and> [0..<length arr] ! i \<notin> set obj}"
    unfolding np_delete_nth length_map by (rule length_filter_conv_card)
  also have "{i. i < length [0..<length arr] \<and> [0..<length arr] ! i \<notin> set obj} =
        {k. k < length arr \<and> k \<notin> set obj}"
    by auto
  also have "{k. k < length arr \<and> k \<notin> set obj} = {..<length arr} - (set obj \<inter> {..<length arr})"
    by auto
  also have "card \<dots> = length arr - card (set obj \<inter> {..<length arr})"
    by (subst card_Diff_subset) auto
  finally show ?thesis .
qed

lemma pair_indices_2: "pair_indices 2 = [(0, 1)]"
  by code_simp

lemma overlap_metric_nested:
  "\<bar>x1 - x2\<bar> \<le> \<bar>r1 - r2\<bar> \<Longrightarrow> \<bar>x1 - x2\<bar> < r1 + r2 \<Longrightarrow>
   overlap_metric pix (circle y x1 r1) (circle y x2 r2) = 1"
  by (simp add: overlap_metric_def blob_overlap_def circle_def hypot_zero_left touching_eps_def)

subsection \<open>Pruning without the shell fraction\<close>

lemma prune_removals_plain:
  "prune_removals pix rows thr False =
     Inr (map (\<lambda>(i, j). if major (fst (rows ! i)) > major (fst (rows ! j)) then j else i)
              (filter (over_threshold pix rows thr) (pair_indices (length rows))))"
proof -
  have "np_where (\<lambda>v. thr \<le> v)
          (dist_uppertri (pdist (overlap_metric pix) (map fst rows)) (length rows)) =
        filter (over_threshold pix rows thr) (pair_indices (length rows))"
    using np_where_pdist [of "\<lambda>v. thr \<le> v" "overlap_metric pix" "map fst rows"]
    by (auto simp: over_threshold_def set_pair_indices intro!: filter_cong)
  then show ?thesis
    by (simp add: prune_removals_def prune_loop_plain)
qed

lemma prune_blobs_plain:
  "prune_removals pix rows thr False = Inr rm \<Longrightarrow>
   prune_blobs pix rows thr False =
     Inr (map ((!) rows) (filter (\<lambda>k. k \<notin> set rm) [0..<length rows]))"
  by (simp add: prune_blobs_def np_delete_nth)

text \<open>
  C6: without \<open>use_shell_fraction\<close>, \<open>_prune_blobs\<close> marks one member of every pair
  whose overlap reaches the threshold: the second when the first has the larger
  semi-major axis, the first otherwise, so the member with the smaller axis whenever the
  axes differ. Nothing else is marked. The result is the rows that are not marked, each
  dropped once however often it is marked, in their order; with exactly one such pair
  the result is one row shorter.
\<close>

theorem prune_blobs_smaller_removed:
  "\<exists>rm. prune_removals pix rows thr False = Inr rm \<and>
     rm = map (\<lambda>(i, j). if major (fst (rows ! i)) > major (fst (rows ! j)) then j else i)
              (filter (over_threshold pix rows thr) (pair_indices (length rows))) \<and>
     (\<forall>i j. i < j \<and> j < length rows \<and> over_threshold pix rows thr (i, j) \<longrightarrow>
        (major (fst (rows ! i)) < major (fst (rows ! j)) \<longrightarrow> i \<in> set rm) \<and>
        (major (fst (rows ! j)) < major (fst (rows ! i)) \<longrightarrow> j \<in> set rm)) \<and>
     (\<forall>k \<in> set rm. \<exists>i j. i < j \<and> j < length rows \<and> over_threshold pix rows thr (i, j) \<and>
        (k = i \<and> major (fst (rows ! i)) \<le> major (fst (rows ! j)) \<or>
         k = j \<and> major (fst (rows ! j)) < major (fst (rows ! i)))) \<and>
     prune_blobs pix rows thr False =
       Inr (map ((!) rows) (filter (\<lambda>k. k \<notin> set rm) [0..<length rows])) \<and>
     (\<forall>out a b. prune_blobs pix rows thr False = Inr out \<and>
        filter (over_threshold pix rows thr) (pair_indices (length rows)) = [(a, b)] \<longrightarrow>
        length out + 1 = length rows)"
proof -
  define ps where "ps = filter (over_threshold pix rows thr) (pair_indices (length rows))"
  define pick where
    "pick = (\<lambda>(i, j). if major (fst (rows ! i)) > major (fst (rows ! j)) then j else (i::nat))"
  define rm where "rm = map pick ps"
  have rm: "prune_removals pix rows thr False = Inr rm"
    by (simp add: prune_removals_plain rm_def ps_def pick_def)
  have ps_set: "set ps = {(i, j). i < j \<and> j < length rows \<and> over_threshold pix rows thr (i, j)}"
    by (auto simp: ps_def set_pair_indices)
  have marks: "(major (fst (rows ! i)) < major (fst (rows ! j)) \<longrightarrow> i \<in> set rm) \<and>
        (major (fst (rows ! j)) < major (fst (rows ! i)) \<longrightarrow> j \<in> set rm)"
    if "i < j \<and> j < length rows \<and> over_threshold pix rows thr (i, j)" for i j
  proof -
    have "(i, j) \<in> set ps" using that by (simp add: ps_set)
    then have "pick (i, j) \<in> set rm" by (simp add: rm_def)
    then show ?thesis by (auto simp: pick_def split: if_splits)
  qed
  have only: "\<exists>i j. i < j \<and> j < length rows \<and> over_threshold pix rows thr (i, j) \<and>
        (k = i \<and> major (fst (rows ! i)) \<le> major (fst (rows ! j)) \<or>
         k = j \<and> major (fst (rows ! j)) < major (fst (rows ! i)))" if "k \<in> set rm" for k
  proof -
    from that obtain i j where ij: "(i, j) \<in> set ps" "k = pick (i, j)"
      by (auto simp: rm_def)
    then show ?thesis
      by (intro exI[of _ i] exI[of _ j]) (auto simp: ps_set pick_def)
  qed
  have out: "prune_blobs pix rows thr False =
       Inr (map ((!) rows) (filter (\<lambda>k. k \<notin> set rm) [0..<length rows]))"
    using rm by (rule prune_blobs_plain)
  have one: "length out + 1 = length rows"
    if "prune_blobs pix rows thr False = Inr out \<and> ps = [(a, b)]" for out a b
  proof -
    from that have "(a, b) \<in> set ps" by simp
    then have ab: "a < b" "b < length rows" by (auto simp: ps_set)
    have "rm = [pick (a, b)]" using that by (simp add: rm_def)
    moreover have "pick (a, b) < length rows" using ab by (simp add: pick_def)
    ultimately have "set rm \<inter> {..<length rows} = {pick (a, b)}" by auto
    moreover have "out = np_delete rows (remdups rm)"
      using that rm by (simp add: prune_blobs_def)
    ultimately have "length out = length rows - 1"
      by (simp add: length_np_delete)
    then show ?thesis using ab by simp
  qed
  show ?thesis
    apply (rule exI[of _ rm])
    using rm marks only out one
    unfolding rm_def ps_def pick_def
    by blast
qed

theorem prune_blobs_smaller_removed_witness:
  "over_threshold no_pixel_overlap nested_rows (1 / 2) (0, 1) \<and>
   major (fst (nested_rows ! 1)) < major (fst (nested_rows ! 0)) \<and>
   prune_removals no_pixel_overlap nested_rows (1 / 2) False = Inr [1] \<and>
   prune_blobs no_pixel_overlap nested_rows (1 / 2) False = Inr [(circle 0 0 3, [])]"
proof -
  have ov: "over_threshold no_pixel_overlap nested_rows (1 / 2) (0, 1)"
    by (simp add: over_threshold_def nested_rows_def overlap_metric_nested)
  have ps: "filter (over_threshold no_pixel_overlap nested_rows (1 / 2))
              (pair_indices (length nested_rows)) = [(0, 1)]"
  proof -
    have "length nested_rows = 2" by (simp add: nested_rows_def)
    then show ?thesis using ov by (simp add: pair_indices_2)
  qed
  have m: "major (fst (nested_rows ! 1)) < major (fst (nested_rows ! 0))"
    by (simp add: nested_rows_def circle_def)
  from prune_blobs_smaller_removed [of no_pixel_overlap nested_rows "1 / 2"]
  obtain rm where rm: "prune_removals no_pixel_overlap nested_rows (1 / 2) False = Inr rm"
    and eq: "rm = map (\<lambda>(i, j). if major (fst (nested_rows ! i)) > major (fst (nested_rows ! j))
                                  then j else i)
              (filter (over_threshold no_pixel_overlap nested_rows (1 / 2))
                 (pair_indices (length nested_rows)))"
    and out: "prune_blobs no_pixel_overlap nested_rows (1 / 2) False =
       Inr (map ((!) nested_rows) (filter (\<lambda>k. k \<notin> set rm) [0..<length nested_rows]))"
    by blast
  have rm1: "rm = [1]" using m by (simp add: eq ps)
  have "prune_blobs no_pixel_overlap nested_rows (1 / 2) False = Inr [(circle 0 0 3, [])]"
    unfolding out rm1 by (simp add: nested_rows_def upt_conv_Cons)
  with ov m rm rm1 show ?thesis by simp
qed

text \<open>
  C10: when the two members of a pair at or above the threshold have equal semi-major
  axes, \<open>_prune_blobs\<close> marks the earlier one, which is removed; the later one stays in
  the result unless another pair marks it.
\<close>

theorem prune_blobs_tie_removes_earlier:
  assumes "i < j" "j < length rows" "over_threshold pix rows thr (i, j)"
    and "major (fst (rows ! i)) = major (fst (rows ! j))"
  shows "\<exists>rm keep. prune_removals pix rows thr False = Inr rm \<and>
           prune_blobs pix rows thr False = Inr (map ((!) rows) keep) \<and>
           i \<in> set rm \<and> i \<notin> set keep \<and>
           (j \<in> set keep \<longleftrightarrow>
              \<not> (\<exists>p q. p < q \<and> q < length rows \<and> over_threshold pix rows thr (p, q) \<and>
                    (p, q) \<noteq> (i, j) \<and>
                    (if major (fst (rows ! p)) > major (fst (rows ! q)) then q else p) = j))"
proof -
  define pick where
    "pick = (\<lambda>(i, j). if major (fst (rows ! i)) > major (fst (rows ! j)) then j else (i::nat))"
  define ps where "ps = filter (over_threshold pix rows thr) (pair_indices (length rows))"
  define rm where "rm = map pick ps"
  define keep where "keep = filter (\<lambda>k. k \<notin> set rm) [0..<length rows]"
  have rm: "prune_removals pix rows thr False = Inr rm"
    by (simp add: prune_removals_plain rm_def ps_def pick_def)
  have out: "prune_blobs pix rows thr False = Inr (map ((!) rows) keep)"
    unfolding keep_def using rm by (rule prune_blobs_plain)
  have ps_set: "set ps = {(p, q). p < q \<and> q < length rows \<and> over_threshold pix rows thr (p, q)}"
    by (auto simp: ps_def set_pair_indices)
  have ij: "(i, j) \<in> set ps" using assms by (simp add: ps_set)
  have "pick (i, j) = i" using assms(4) by (simp add: pick_def)
  with ij have i_rm: "i \<in> set rm" unfolding rm_def by force
  then have i_keep: "i \<notin> set keep" by (simp add: keep_def)
  have "j \<in> set rm \<longleftrightarrow> (\<exists>p q. (p, q) \<in> set ps \<and> (p, q) \<noteq> (i, j) \<and> pick (p, q) = j)"
  proof
    assume "j \<in> set rm"
    then obtain p q where pq: "(p, q) \<in> set ps" "pick (p, q) = j"
      by (auto simp: rm_def)
    moreover have "(p, q) \<noteq> (i, j)"
      using pq \<open>pick (i, j) = i\<close> assms(1) by auto
    ultimately show "\<exists>p q. (p, q) \<in> set ps \<and> (p, q) \<noteq> (i, j) \<and> pick (p, q) = j" by blast
  next
    assume "\<exists>p q. (p, q) \<in> set ps \<and> (p, q) \<noteq> (i, j) \<and> pick (p, q) = j"
    then show "j \<in> set rm" unfolding rm_def by force
  qed
  then have j_keep: "j \<in> set keep \<longleftrightarrow>
      \<not> (\<exists>p q. p < q \<and> q < length rows \<and> over_threshold pix rows thr (p, q) \<and>
                    (p, q) \<noteq> (i, j) \<and> pick (p, q) = j)"
    using assms(2) by (auto simp: keep_def ps_set)
  have pick_eq: "pick (p, q) = (if major (fst (rows ! p)) > major (fst (rows ! q)) then q else p)"
    for p q by (simp add: pick_def)
  show ?thesis
    using rm out i_rm i_keep j_keep [unfolded pick_eq] by blast
qed

theorem prune_blobs_tie_removes_earlier_witness:
  "(0::nat) < 1 \<and> 1 < length tied_rows \<and>
   over_threshold no_pixel_overlap tied_rows (1 / 2) (0, 1) \<and>
   major (fst (tied_rows ! 0)) = major (fst (tied_rows ! 1)) \<and>
   prune_removals no_pixel_overlap tied_rows (1 / 2) False = Inr [0] \<and>
   prune_blobs no_pixel_overlap tied_rows (1 / 2) False = Inr [(circle 0 0 1, [8])]"
proof -
  have ov: "over_threshold no_pixel_overlap tied_rows (1 / 2) (0, 1)"
    by (simp add: over_threshold_def tied_rows_def overlap_metric_nested)
  have m: "major (fst (tied_rows ! 0)) = major (fst (tied_rows ! 1))"
    by (simp add: tied_rows_def)
  have len: "1 < length tied_rows" by (simp add: tied_rows_def)
  from prune_blobs_tie_removes_earlier [OF _ len ov m]
  obtain rm keep where rm: "prune_removals no_pixel_overlap tied_rows (1 / 2) False = Inr rm"
    and out: "prune_blobs no_pixel_overlap tied_rows (1 / 2) False = Inr (map ((!) tied_rows) keep)"
    and i: "0 \<in> set rm" "0 \<notin> set keep"
    by auto
  have ps: "filter (over_threshold no_pixel_overlap tied_rows (1 / 2))
              (pair_indices (length tied_rows)) = [(0, 1)]"
  proof -
    have "length tied_rows = 2" by (simp add: tied_rows_def)
    then show ?thesis using ov by (simp add: pair_indices_2)
  qed
  have rm0: "prune_removals no_pixel_overlap tied_rows (1 / 2) False = Inr [0]"
    using m by (simp add: prune_removals_plain ps)
  then have "prune_blobs no_pixel_overlap tied_rows (1 / 2) False = Inr [(circle 0 0 1, [8])]"
    by (simp add: prune_blobs_def np_delete_def tied_rows_def upt_conv_Cons)
  with ov m len rm0 show ?thesis by simp
qed

subsection \<open>Pruning with the shell fraction\<close>

text \<open>With \<open>use_shell_fraction\<close> the loop cannot get past its first pair.\<close>

lemma prune_loop_shell_fraction:
  "prune_loop rows True ps rm = Inr rm' \<Longrightarrow> ps = []"
  by (cases ps) (auto simp: Let_def split: if_splits)

text \<open>
  C2 says that with \<open>use_shell_fraction\<close> the member with the lower quality is marked
  and \<open>_prune_blobs\<close> returns. On two rows with shell fractions 0.9 and 0.3 whose
  overlap is 1, the source computes \<open>shell_cond\<close> and then tests \<open>cond\<close>, which has no
  value: UnboundLocalError, and nothing is returned.
\<close>

theorem prune_blobs_shell_fraction_raises:
  "prune_blobs pix shell_rows (9 / 10) True = Inl UnboundLocalError_cond"
proof -
  have len: "length shell_rows = 2"
    and nth: "shell_rows ! 0 = (circle 0 0 1, [9 / 10])" "shell_rows ! Suc 0 = (circle 0 1 3, [3 / 10])"
    by (simp_all add: shell_rows_def)
  have "overlap_metric_sliced pix (circle 0 0 1, [9 / 10]) (circle 0 1 3, [3 / 10]) = Inr 1"
    by (simp add: overlap_metric_sliced_def blob_overlap_def circle_def hypot_zero_left
        touching_eps_def Let_def)
  then have "pdist_sliced pix shell_rows = Inr [1]"
    by (simp add: pdist_sliced_def len pair_indices_2 nth)
  then show ?thesis
    by (simp add: prune_blobs_def prune_removals_def dist_uppertri_def np_where_def
        pair_indices_2 len nth Let_def)
qed

subsection \<open>Overlaps of circles on a line\<close>

lemma sqrt2_bounds: "1 < sqrt 2" "sqrt 2 < 2"
  by (simp_all add: real_less_lsqrt)

lemma arccos_sqrt2_half: "arccos (sqrt 2 / 2) = pi / 4"
proof -
  have "arccos (cos (pi / 4)) = pi / 4"
    by (rule arccos_cos) simp_all
  then show ?thesis by (simp add: cos_45)
qed

lemma pi_ge_3: "3 \<le> pi"
  using sin_x_le_x[of "pi / 6"] by (simp add: sin_30)

lemma blob_overlap_far:
  assumes "r1 + r2 < \<bar>x1 - x2\<bar>"
  shows "blob_overlap (circle y x1 r1) (circle y x2 r2) = 0"
  using assms by (simp add: blob_overlap_def circle_def hypot_zero_left Let_def)

lemma blob_overlap_lens:
  assumes "\<bar>x1 - x2\<bar> = 2"
  shows "blob_overlap (circle y x1 (sqrt 2)) (circle y x2 (sqrt 2)) = (pi - 2) / (2 * pi)"
proof -
  have d: "hypot (y - y) (x1 - x2) = 2"
    using assms by (simp add: hypot_zero_left)
  have r: "2 / (2 * sqrt 2) = sqrt 2 / 2" 
    by (simp add: real_div_sqrt field_simps)
  have clip: "np_clip (sqrt 2 / 2) (- 1) 1 = sqrt 2 / 2"
  proof -
    have "- 1 \<le> sqrt 2 / 2" "sqrt 2 / 2 \<le> 1"
      using sqrt2_bounds by linarith+
    then show ?thesis
      unfolding np_clip_def by linarith
  qed
  have prod: "(2 * sqrt 2 - 2) * 2 * 2 * (2 + 2 * sqrt 2) = 16"
    by (simp add: algebra_simps)
  have sq: "sqrt \<bar>(2 * sqrt 2 - 2) * 2 * 2 * (2 + 2 * sqrt 2)\<bar> = 4"
    using real_sqrt_abs[of 4] by (simp only: prod) simp
  have "(8 * sqrt 2 - 8) * (2 * sqrt 2 + 2) = (16::real)"
    by (simp add: algebra_simps)
  then have sq': "sqrt ((8 * sqrt 2 - 8) * (2 * sqrt 2 + 2)) = 4"
    using real_sqrt_abs[of 4] by simp
  have ratio: "(2\<^sup>2 + (sqrt 2)\<^sup>2 - (sqrt 2)\<^sup>2) / (2 * 2 * sqrt 2) = sqrt 2 / 2"
    using r by simp
  have c1: "\<not> 2 > sqrt 2 + sqrt 2" "2 \<noteq> sqrt 2 + sqrt 2" "\<not> 2 \<le> \<bar>sqrt 2 - sqrt 2\<bar>"
    using sqrt2_bounds by simp_all
  show ?thesis
    unfolding blob_overlap_def circle_def Let_def
    apply (simp only: blob.simps d c1 if_False ratio clip arccos_sqrt2_half)
    apply (simp add: sq') 
    done
qed

lemma lens_value_bounds: "0 < (pi - 2) / (2 * pi)" "(pi - 2) / (2 * pi) \<le> 1"
  "(pi - 2) / (2 * pi) \<noteq> touching_eps"
proof -
  have p: "3 \<le> pi" "pi < 4" using pi_ge_3 pi_less_4 by auto
  show "0 < (pi - 2) / (2 * pi)" using p by simp
  show "(pi - 2) / (2 * pi) \<le> 1" using p by (simp add: field_simps)
  have "1 / 8 < (pi - 2) / (2 * pi)" using p by (simp add: field_simps)
  then show "(pi - 2) / (2 * pi) \<noteq> touching_eps" by (simp add: touching_eps_def)
qed

lemma overlap_metric_far:
  "r1 + r2 < \<bar>x1 - x2\<bar> \<Longrightarrow> overlap_metric pix (circle y x1 r1) (circle y x2 r2) = 0"
  by (simp add: overlap_metric_def blob_overlap_far Let_def) (simp add: circle_def touching_eps_def)

lemma overlap_metric_lens:
  "\<bar>x1 - x2\<bar> = 2 \<Longrightarrow>
   overlap_metric pix (circle y x1 (sqrt 2)) (circle y x2 (sqrt 2)) = (pi - 2) / (2 * pi)"
  using lens_value_bounds(3)
  by (simp add: overlap_metric_def blob_overlap_lens Let_def) (simp add: circle_def)

lemma pair_indices_5:
  "pair_indices 5 = [(0,1),(0,2),(0,3),(0,4),(1,2),(1,3),(1,4),(2,3),(2,4),(3,4)]"
  by code_simp


lemma min_merge_overlap_2: "min_merge_overlap 2 = Some 0"
  by (simp add: min_merge_overlap_def)

subsection \<open>The loop of \<open>_merge_blobs\<close>\<close>





















lemma merge_to_ellipse_horizontal:
  assumes "x1 \<noteq> x2"
  shows "merge_to_ellipse \<lparr>ypos = y, xpos = x1, major = r, minor = m, pa = p\<rparr>
                          \<lparr>ypos = y, xpos = x2, major = r', minor = m', pa = p'\<rparr>
         = \<lparr>ypos = y, xpos = (x1 + x2) / 2, major = r + \<bar>x1 - x2\<bar> / 2, minor = r, pa = Some 0\<rparr>"
  using assms by (simp add: merge_to_ellipse_def np_arctan_quotient_def hypot_zero_left)

subsection \<open>A run of \<open>_merge_blobs\<close> on five circles\<close>


lemma line_overlaps:
  "merge_overlaps pix line_blobs 2 = [(0, 2), (1, 3), (2, 3)]"
proof -
  have far: "overlap_metric pix (circle 0 x1 (sqrt 2)) (circle 0 x2 (sqrt 2)) = 0"
    if "4 \<le> \<bar>x1 - x2\<bar>" for x1 x2
    using that sqrt2_bounds by (intro overlap_metric_far) linarith
  have len: "length line_blobs = 5" by (simp add: line_blobs_def)
  have nth: "line_blobs ! 0 = circle 0 0 (sqrt 2)" "line_blobs ! Suc 0 = circle 0 6 (sqrt 2)"
    "line_blobs ! 2 = circle 0 2 (sqrt 2)" "line_blobs ! 3 = circle 0 4 (sqrt 2)"
    "line_blobs ! 4 = circle 0 20 (sqrt 2)"
    by (simp_all add: line_blobs_def)
  have cond: "pdist (overlap_metric pix) line_blobs =
      [0, (pi - 2) / (2 * pi), 0, 0, 0, (pi - 2) / (2 * pi), 0, (pi - 2) / (2 * pi), 0, 0]"
    by (simp add: pdist_def len pair_indices_5 nth far overlap_metric_lens)
  show ?thesis
    using lens_value_bounds(1,2)
    by (simp add: merge_overlaps_def min_merge_overlap_2 cond len dist_uppertri_def np_where_def
        pair_indices_5 in_merge_band_def Let_def)
qed

lemma line_pass:
  "merge_pass pix line_blobs 2 =
     \<lparr>blobs_array = [mark_invalid (circle 0 0 (sqrt 2)), mark_invalid (circle 0 6 (sqrt 2)),
                     mark_invalid (circle 0 2 (sqrt 2)), mark_invalid (circle 0 4 (sqrt 2)),
                     circle 0 20 (sqrt 2)],
      merged_blobs = [\<lparr>ypos = 0, xpos = 1, major = sqrt 2 + 1, minor = sqrt 2, pa = Some 0\<rparr>,
                      \<lparr>ypos = 0, xpos = 5, major = sqrt 2 + 1, minor = sqrt 2, pa = Some 0\<rparr>,
                      \<lparr>ypos = 0, xpos = 3, major = 0, minor = - 1, pa = Some 0\<rparr>],
      merge_calls = [(0, 2), (1, 3), (2, 3)]\<rparr>"
  by (simp add: merge_pass_def line_overlaps)
     (simp add: line_blobs_def circle_def mark_invalid_def py_invert_def np_logical_and_def
        merge_to_ellipse_horizontal Let_def)

lemma line_merge:
  "merge_blobs pix line_blobs 2 =
     Inr [circle 0 20 (sqrt 2),
          \<lparr>ypos = 0, xpos = 1, major = sqrt 2 + 1, minor = sqrt 2, pa = Some 0\<rparr>,
          \<lparr>ypos = 0, xpos = 5, major = sqrt 2 + 1, minor = sqrt 2, pa = Some 0\<rparr>,
          \<lparr>ypos = 0, xpos = 3, major = 0, minor = - 1, pa = Some 0\<rparr>]"
  by (simp add: merge_blobs_def line_pass) (simp add: circle_def mark_invalid_def)

subsection \<open>Merging a pair\<close>




subsection \<open>Detections used twice\<close>

text \<open>
  C3 says that a detection is an input of at most one merge in a pass. On the five
  circles, with \<open>min_distance_merge = 2\<close>, the pairs of the band are \<open>(0, 2)\<close>, \<open>(1, 3)\<close>
  and \<open>(2, 3)\<close>. The first two merges set the radii of rows 0 to 3 to \<open>-1\<close>; at the
  third pair both radii are \<open>-1\<close>, hence equal, and \<open>merge_to_ellipse\<close> is called on two
  rows that are already marked. Its result, with axes 0 and \<open>-1\<close>, is in the output.
\<close>

theorem merge_pass_reuses_consumed:
  "merge_calls (merge_pass pix line_blobs 2) = [(0, 2), (1, 3), (2, 3)] \<and>
   \<not> distinct (concat (map (\<lambda>(p, q). [p, q]) (merge_calls (merge_pass pix line_blobs 2)))) \<and>
   merge_blobs pix line_blobs 2 =
     Inr [circle 0 20 (sqrt 2),
          \<lparr>ypos = 0, xpos = 1, major = sqrt 2 + 1, minor = sqrt 2, pa = Some 0\<rparr>,
          \<lparr>ypos = 0, xpos = 5, major = sqrt 2 + 1, minor = sqrt 2, pa = Some 0\<rparr>,
          \<lparr>ypos = 0, xpos = 3, major = 0, minor = - 1, pa = Some 0\<rparr>]"
  by (simp add: line_pass line_merge)

subsection \<open>\<open>blob_log\<close>: the checks of the configuration\<close>

lemma check_weighting_length: "check_weighting cfg sl = Inr w \<Longrightarrow> length w = length sl"
  by (auto simp: check_weighting_def split: option.splits if_splits)

lemma response_stack_length:
  "length w = length sl \<Longrightarrow> length (response_stack gl img sl w) = length sl"
  by (simp add: response_stack_def)

lemma py_is_log: "py_is s (Interned t) \<longleftrightarrow> s = Interned t"
  by (cases s) auto

lemma blob_log_sigma_error:
  "make_sigma_list cfg = Inl e \<Longrightarrow> blob_log gl plm pix img cfg = Inl e"
  by (simp add: blob_log_def)

lemma blob_log_weighting_mismatch:
  assumes "make_sigma_list cfg = Inr sl" and "weighting cfg = Some w" and "length w \<noteq> length sl"
  shows "blob_log gl plm pix img cfg = Inl (IndexError_weighting (length sl))"
  using assms by (simp add: blob_log_def check_weighting_def)

lemma blob_log_unknown_scale_choice:
  assumes "sigma_list cfg = None"
    and "str_val (scale_choice cfg) \<notin> {''log'', ''linear'', ''ratio''}"
  shows "blob_log gl plm pix img cfg = Inl ValueError_scale_choice"
proof -
  have "\<not> py_is (scale_choice cfg) (Interned ''log'')"
    "\<not> py_is (scale_choice cfg) (Interned ''linear'')"
    "\<not> py_is (scale_choice cfg) (Interned ''ratio'')"
    using assms(2) by (auto simp: py_is_log)
  then show ?thesis
    using assms(1) by (simp add: blob_log_def make_sigma_list_def)
qed

lemma make_sigma_list_interned:
  assumes "sigma_list cfg \<noteq> None \<or>
           scale_choice cfg \<in> {Interned ''log'', Interned ''linear'', Interned ''ratio''}"
  shows "make_sigma_list cfg \<noteq> Inl ValueError_scale_choice \<and>
         make_sigma_list cfg \<noteq> Inl (IndexError_weighting n)"
  using assms
  by (auto simp: make_sigma_list_def math_log_def np_linspace_def np_logspace_def Let_def
      split: option.splits sum.splits if_splits)

lemma prune_blobs_plain_returns: "prune_blobs pix rows thr False \<noteq> Inl e"
  by (simp add: prune_blobs_def prune_removals_plain)

lemma merge_blobs_error: "merge_blobs pix blobs mdm = Inl e \<Longrightarrow> e = ValueError_concatenate"
  by (auto simp: merge_blobs_def Let_def split: if_splits)

text \<open>A configuration whose \<open>scale_choice\<close> is one of the three literals themselves, or
  that brings its own scales, and whose weighting, if any, has the length of the scale
  list, raises neither of the two configuration errors.\<close>

lemma blob_log_accepts_interned:
  assumes "sigma_list cfg \<noteq> None \<or>
           scale_choice cfg \<in> {Interned ''log'', Interned ''linear'', Interned ''ratio''}"
    and "\<forall>w sl. weighting cfg = Some w \<and> make_sigma_list cfg = Inr sl \<longrightarrow> length w = length sl"
  shows "blob_log gl plm pix img cfg \<noteq> Inl ValueError_scale_choice \<and>
         blob_log gl plm pix img cfg \<noteq> Inl (IndexError_weighting n)"
proof (cases "make_sigma_list cfg")
  case (Inl e)
  with make_sigma_list_interned [OF assms(1), of n] show ?thesis
    by (simp add: blob_log_def)
next
  case (Inr sl)
  have "\<exists>w. check_weighting cfg sl = Inr w"
  proof (cases "weighting cfg")
    case None
    then show ?thesis by (simp add: check_weighting_def)
  next
    case (Some w)
    with assms(2) Inr have "length w = length sl" by simp
    with Some show ?thesis by (simp add: check_weighting_def)
  qed
  then obtain w where w: "check_weighting cfg sl = Inr w" ..
  show ?thesis
    using Inr w merge_blobs_error [of pix _ "merge_overlap_dist cfg"]
    by (auto simp: blob_log_def Let_def prune_blobs_plain_returns split: sum.splits)
qed

text \<open>
  C8 says, among other things, that a valid configuration raises no configuration
  error. \<open>blob_log\<close> compares \<open>scale_choice\<close> with its three literals by \<open>is\<close>: a string
  with the text \<open>'log'\<close> that is not the interned literal fails all three tests and
  \<open>blob_log\<close> raises the ValueError of an unknown \<open>scale_choice\<close>. The lemmas above are
  the parts of C8 that hold: a weighting of the wrong length and a text other than the
  three names are rejected, and the three literals themselves are accepted.
\<close>

theorem blob_log_fresh_string_rejected:
  "str_val (scale_choice fresh_log_config) = ''log'' \<and>
   sigma_list fresh_log_config = None \<and> weighting fresh_log_config = None \<and>
   blob_log gl plm pix img fresh_log_config = Inl ValueError_scale_choice"
  by (simp add: blob_log_def make_sigma_list_def fresh_log_config_def)

subsection \<open>\<open>blob_log\<close> without maxima\<close>

lemma local_maxima_rows_empty:
  assumes "\<forall>i < length sl. plm (cube ! i) thr (1.5 * (sl ! i)) = []"
  shows "local_maxima_rows plm cube sl thr = []"
  using assms by (simp add: local_maxima_rows_def)

text \<open>
  C9: when the configuration is accepted and \<open>peak_local_max\<close> finds no peak on any
  slice of the response stack, \<open>blob_log\<close> returns the empty list of detections and the
  response stack, whatever the overlap kernel is: neither \<open>_merge_blobs\<close> nor
  \<open>_prune_blobs\<close> is reached.
\<close>

theorem blob_log_no_maxima:
  assumes "make_sigma_list cfg = Inr sl" and "check_weighting cfg sl = Inr w" and "sl \<noteq> []"
    and "\<forall>i < length sl.
           plm (response_stack gl img sl w ! i) (threshold cfg) (1.5 * (sl ! i)) = []"
  shows "blob_log gl plm pix img cfg = Inr ([], response_stack gl img sl w) \<and>
         (\<forall>pix'. blob_log gl plm pix' img cfg = blob_log gl plm pix img cfg)"
proof -
  have "length (response_stack gl img sl w) = length sl"
    using assms(2) by (intro response_stack_length check_weighting_length)
  with assms(3) have ne: "response_stack gl img sl w \<noteq> []" by auto
  have rows: "local_maxima_rows plm (response_stack gl img sl w) sl (threshold cfg) = []"
    using assms(4) by (rule local_maxima_rows_empty)
  have "blob_log gl plm p img cfg = Inr ([], response_stack gl img sl w)" for p
    using assms(1,2) ne rows by (simp add: blob_log_def Let_def)
  then show ?thesis by simp
qed

theorem blob_log_no_maxima_witness:
  "make_sigma_list line_config = Inr [1] \<and> check_weighting line_config [1] = Inr [1] \<and>
   [1::real] \<noteq> [] \<and>
   blob_log identity_filter empty_peaks no_pixel_overlap [[0]] line_config =
     Inr ([], response_stack identity_filter [[0]] [1] [1])"
proof -
  have s: "make_sigma_list line_config = Inr [1]"
    by (simp add: make_sigma_list_def line_config_def)
  have w: "check_weighting line_config [1] = Inr [1]"
    by (simp add: check_weighting_def line_config_def)
  have p: "\<forall>i < length [1::real].
     empty_peaks (response_stack identity_filter [[0]] [1] [1] ! i) (threshold line_config)
       (1.5 * ([1] ! i)) = []"
    by (simp add: empty_peaks_def)
  have n: "[1::real] \<noteq> []" by simp
  from blob_log_no_maxima [where cfg = line_config and sl = "[1]" and w = "[1]"
      and plm = empty_peaks and gl = identity_filter and img = "[[0]]"
      and pix = no_pixel_overlap, OF s w n p] s w
  show ?thesis by simp
qed

subsection \<open>\<open>blob_log\<close> on the five circles\<close>

lemma prune_blobs_none:
  assumes "\<forall>i j. i < j \<and> j < length rows \<longrightarrow> \<not> over_threshold pix rows thr (i, j)"
  shows "prune_blobs pix rows thr False = Inr rows"
proof -
  have "filter (over_threshold pix rows thr) (pair_indices (length rows)) = []"
    using assms by (auto simp: filter_empty_conv set_pair_indices)
  then have "prune_removals pix rows thr False = Inr []"
    by (simp add: prune_removals_plain)
  then show ?thesis
    by (simp add: prune_blobs_def np_delete_nth map_nth)
qed

lemma line_rows:
  "local_maxima_rows line_peaks cube [1] thr = line_blobs"
  by (simp add: local_maxima_rows_def line_peaks_def line_blobs_def circle_def)

text \<open>
  C7 says that every detection \<open>blob_log\<close> returns has \<open>semi_major \<ge> semi_minor \<ge> 0\<close>.
  With the one scale 1, \<open>merge_overlap_dist = 2\<close> and the five peaks, the detections
  before the merge are the five circles above, and the merge appends the ellipse it
  makes from two rows that are already marked, with semi-minor axis \<open>-1\<close>. Every pair of
  the four merged rows has an ellipse in it, so \<open>_prune_blobs\<close> asks the sampled kernel;
  when its values are below the threshold 0.5 nothing is removed.
\<close>

theorem blob_log_negative_axis:
  assumes "\<forall>a b. pix a b < 1 / 2"
  shows "blob_log gl line_peaks pix img line_config =
           Inr ([circle 0 20 (sqrt 2),
                 \<lparr>ypos = 0, xpos = 1, major = sqrt 2 + 1, minor = sqrt 2, pa = Some 0\<rparr>,
                 \<lparr>ypos = 0, xpos = 5, major = sqrt 2 + 1, minor = sqrt 2, pa = Some 0\<rparr>,
                 \<lparr>ypos = 0, xpos = 3, major = 0, minor = - 1, pa = Some 0\<rparr>],
                response_stack gl img [1] [1]) \<and>
         (\<exists>b \<in> set (fst (projr (blob_log gl line_peaks pix img line_config))). minor b < 0)"
proof -
  define merged where "merged =
     [circle 0 20 (sqrt 2),
      \<lparr>ypos = 0, xpos = 1, major = sqrt 2 + 1, minor = sqrt 2, pa = Some 0\<rparr>,
      \<lparr>ypos = 0, xpos = 5, major = sqrt 2 + 1, minor = sqrt 2, pa = Some 0\<rparr>,
      \<lparr>ypos = 0, xpos = 3, major = 0, minor = - 1, pa = Some 0\<rparr>]"
  define rows where "rows = map (\<lambda>b. (b, [] :: real list)) merged"
  have s: "make_sigma_list line_config = Inr [1]"
    by (simp add: make_sigma_list_def line_config_def)
  have w: "check_weighting line_config [1] = Inr [1]"
    by (simp add: check_weighting_def line_config_def)
  have cube: "response_stack gl img [1] [1] \<noteq> []"
    by (simp add: response_stack_def)
  have m: "merge_blobs pix line_blobs (merge_overlap_dist line_config) = Inr merged"
    by (simp add: line_config_def line_merge merged_def)
  have ne: "line_blobs \<noteq> []" by (simp add: line_blobs_def)
  have ell: "major (fst (rows ! j)) \<noteq> minor (fst (rows ! j))" if "0 < j" "j < 4" for j
  proof -
    from that have "j = 1 \<or> j = 2 \<or> j = 3" by auto
    then show ?thesis by (auto simp: rows_def merged_def)
  qed
  have "\<not> over_threshold pix rows (1 / 2) (i, j)" if "i < j \<and> j < length rows" for i j
  proof -
    from that have "0 < j" "j < 4" by (auto simp: rows_def merged_def)
    then have "overlap_metric pix (fst (rows ! i)) (fst (rows ! j)) =
          pix (fst (rows ! i)) (fst (rows ! j))"
      using ell [of j] by (simp add: overlap_metric_def)
    then show ?thesis
      using assms by (simp add: over_threshold_def not_le)
  qed
  then have p: "prune_blobs pix rows (overlap line_config) False = Inr rows"
    by (simp add: line_config_def prune_blobs_none)
  have thr: "threshold line_config = 1 / 5" by (simp add: line_config_def)
  have "blob_log gl line_peaks pix img line_config = Inr (merged, response_stack gl img [1] [1])"
    using s w cube m ne p
    by (simp add: blob_log_def Let_def line_rows rows_def comp_def)
  then show ?thesis by (simp add: merged_def)
qed

theorem blob_log_negative_axis_witness:
  "(\<forall>a b. no_pixel_overlap a b < 1 / 2) \<and>
   (\<exists>b \<in> set (fst (projr (blob_log identity_filter line_peaks no_pixel_overlap [[0]] line_config))).
      minor b < 0)"
proof -
  have h: "\<forall>a b. no_pixel_overlap a b < 1 / 2"
    by (simp add: no_pixel_overlap_def)
  from blob_log_negative_axis [OF h, of identity_filter "[[0]]"] h show ?thesis by blast
qed

end
